theory Spec2Isabelle
  imports Complex_Main "HOL-Library.AList" "HOL-Library.Sublist"
begin

section \<open>Values shared by the endpoint and the page\<close>

text \<open>
  A Python \<open>str\<close> is a sequence of Unicode code points, so it is modelled as a list of
  natural numbers. \<open>S\<close> turns an ASCII literal of the source into such a list.
\<close>

type_synonym pystr = "nat list"

definition S :: "string \<Rightarrow> pystr" where
  "S s = map of_char s"

text \<open>
  Values that arrive as JSON (request bodies, streamed events). Floats are only carried
  around and tested against zero, so they are kept as rationals. A \<open>dict\<close> is an
  association list in insertion order: \<open>map_of\<close> is the lookup and \<open>AList.update\<close> is the
  item assignment (an existing key keeps its place, a new key goes last).
\<close>

datatype json =
    JNull
  | JBool bool
  | JInt int
  | JFloat rat
  | JStr pystr
  | JArr "json list"
  | JObj "(pystr \<times> json) list"

type_synonym jdict = "(pystr \<times> json) list"

text \<open>Python truthiness of a JSON value, as tested by \<open>if x\<close> and \<open>x if c else y\<close>.\<close>

fun truthy :: "json \<Rightarrow> bool" where
  "truthy JNull = False"
| "truthy (JBool b) = b"
| "truthy (JInt i) = (i \<noteq> 0)"
| "truthy (JFloat r) = (r \<noteq> 0)"
| "truthy (JStr s) = (s \<noteq> [])"
| "truthy (JArr xs) = (xs \<noteq> [])"
| "truthy (JObj kvs) = (kvs \<noteq> [])"

text \<open>\<open>d.get(k, default)\<close>.\<close>

definition dict_get :: "('k \<times> 'v) list \<Rightarrow> 'k \<Rightarrow> 'v \<Rightarrow> 'v" where
  "dict_get d k dflt = (case map_of d k of None \<Rightarrow> dflt | Some v \<Rightarrow> v)"

text \<open>
  The exceptions that end a call in the two files: the ones their own statements raise
  (\<open>KeyError\<close>, \<open>TypeError\<close>), the one \<open>json.loads\<close> raises, the validation error of the
  framework's \<open>LLMChain\<close> constructor, and the two the chat box raises when a chat is
  deleted.
\<close>

datatype exception =
    KeyError pystr
  | TypeError
  | JSONDecodeError
  | ValidationError
  | UnboundLocalError
  | IndexError

text \<open>\<open>d[k]\<close>: a missing key raises \<open>KeyError\<close>.\<close>

definition getitem :: "(pystr \<times> 'v) list \<Rightarrow> pystr \<Rightarrow> exception + 'v" where
  "getitem d k = (case map_of d k of None \<Rightarrow> Inl (KeyError k) | Some v \<Rightarrow> Inr v)"

text \<open>Sequencing of steps that may raise: the first exception ends the computation.\<close>

definition and_then :: "exception + 'a \<Rightarrow> ('a \<Rightarrow> exception + 'b) \<Rightarrow> exception + 'b" where
  "and_then r f = (case r of Inl e \<Rightarrow> Inl e | Inr v \<Rightarrow> f v)"

subsection \<open>json.dumps\<close>

text \<open>\<open>str(i)\<close> for a natural number: its decimal digits.\<close>

fun decimal :: "nat \<Rightarrow> pystr" where
  "decimal n = (if n < 10 then [48 + n] else decimal (n div 10) @ [48 + n mod 10])"

declare decimal.simps [simp del]

text \<open>
  The text \<open>json.dumps(v, ensure_ascii=False)\<close> writes, with the default separators
  \<open>", "\<close> and \<open>": "\<close> and no indentation. In a string the quote, the backslash and the
  control characters below U+0020 are escaped and every other character is written as it
  is. How a float is printed is left to the parameter \<open>float_repr\<close>.
\<close>

definition int_repr :: "int \<Rightarrow> pystr" where
  "int_repr i = (if i < 0 then 45 # decimal (nat (- i)) else decimal (nat i))"

definition hex_digit :: "nat \<Rightarrow> nat" where
  "hex_digit d = (if d < 10 then 48 + d else 87 + d)"

definition escape :: "nat \<Rightarrow> pystr" where
  "escape c =
     (if c = 34 then [92, 34]
      else if c = 92 then [92, 92]
      else if c = 8 then [92, 98]
      else if c = 12 then [92, 102]
      else if c = 10 then [92, 110]
      else if c = 13 then [92, 114]
      else if c = 9 then [92, 116]
      else if c < 32 then [92, 117, 48, 48, hex_digit (c div 16), hex_digit (c mod 16)]
      else [c])"

definition quote :: "pystr \<Rightarrow> pystr" where
  "quote s = [34] @ concat (map escape s) @ [34]"

fun join :: "pystr \<Rightarrow> pystr list \<Rightarrow> pystr" where
  "join sep [] = []"
| "join sep [x] = x"
| "join sep (x # y # ys) = x @ sep @ join sep (y # ys)"

fun json_dumps :: "(rat \<Rightarrow> pystr) \<Rightarrow> json \<Rightarrow> pystr" where
  "json_dumps float_repr JNull = S ''null''"
| "json_dumps float_repr (JBool b) = (if b then S ''true'' else S ''false'')"
| "json_dumps float_repr (JInt i) = int_repr i"
| "json_dumps float_repr (JFloat r) = float_repr r"
| "json_dumps float_repr (JStr s) = quote s"
| "json_dumps float_repr (JArr xs) =
     [91] @ join (S '', '') (map (json_dumps float_repr) xs) @ [93]"
| "json_dumps float_repr (JObj kvs) =
     [123] @
     join (S '', '')
       (map (\<lambda>kv. quote (fst kv) @ S '': '' @ json_dumps float_repr (snd kv)) kvs) @
     [125]"

section \<open>server/chat/chat.py\<close>

subsection \<open>Objects of the wrapped framework\<close>

text \<open>
  The chat model, prompt, memory, chain and agent classes belong to the wrapped framework
  and to modules of the repository outside the two files. Their constructors are modelled
  as free constructors that record the arguments of the call, in the order and under the
  names the source passes them; they are taken to return.

  \<open>get_ChatOpenAI\<close> is a function of the repository outside the two files. It is a
  parameter, \<open>gco\<close>, from the keyword arguments of one call to the model object it returns;
  the type \<open>'m\<close> of model objects is left open. The one attribute the files read from a
  model object, \<open>model_name\<close>, is a parameter where it is read. \<open>callbacks\<close> is \<open>None\<close> for
  Python's \<open>None\<close>.
\<close>

record 'cb ChatOpenAI_args =
  model_name :: pystr
  temperature :: json
  max_tokens :: json
  callbacks :: "'cb option"
  streaming :: bool

text \<open>A prompt template as \<open>get_prompt_template\<close> returns it: a template string.\<close>

type_synonym prompt_template = pystr

subsection \<open>create_models_from_config\<close>

text \<open>
  \<open>configs\<close> maps a model type to a mapping from model name to a parameter dict, as the
  request documents it. The two nested loops thread three variables: \<open>callbacks\<close> (the
  function's own parameter, reassigned in the loop body), \<open>models\<close> and \<open>prompts\<close>
  (the fields \<open>callbacks_var\<close>, \<open>models_var\<close> and \<open>prompts_var\<close>). The
  fourth component, \<open>built\<close>, is the sequence of \<open>get_ChatOpenAI\<close> calls made so far, each
  by its arguments, oldest first: \<open>models\<close> keeps only the last instance of each model type. \<open>get_prompt_template\<close>
  lives outside the two files and is a parameter \<open>gpt\<close>.
\<close>

type_synonym model_configs = "(pystr \<times> jdict) list"
type_synonym configs = "(pystr \<times> model_configs) list"

record ('m, 'cb) loop_state =
  callbacks_var :: "'cb option"
  models_var :: "(pystr \<times> 'm) list"
  prompts_var :: "(pystr \<times> prompt_template) list"
  built :: "'cb ChatOpenAI_args list"

definition loop_body ::
  "('cb ChatOpenAI_args \<Rightarrow> 'm) \<Rightarrow> (pystr \<Rightarrow> json \<Rightarrow> prompt_template) \<Rightarrow> bool \<Rightarrow> pystr \<Rightarrow>
   pystr \<times> jdict \<Rightarrow> ('m, 'cb) loop_state \<Rightarrow> ('m, 'cb) loop_state" where
  "loop_body gco gpt stream model_type item st =
     (let mname = fst item;
          params = snd item;
          cbs = (if truthy (dict_get params (S ''callbacks'') (JBool False))
                 then callbacks_var st else None);
          args =
            \<lparr>model_name = mname,
             temperature = dict_get params (S ''temperature'') (JFloat (1 / 2)),
             max_tokens = dict_get params (S ''max_tokens'') (JInt 1000),
             callbacks = cbs,
             streaming = stream\<rparr>;
          model_instance = gco args;
          prompt_name = dict_get params (S ''prompt_name'') (JStr (S ''default''));
          prompt_template = gpt model_type prompt_name
      in \<lparr>callbacks_var = cbs,
          models_var = AList.update model_type model_instance (models_var st),
          prompts_var = AList.update model_type prompt_template (prompts_var st),
          built = built st @ [args]\<rparr>)"

fun inner_loop ::
  "('cb ChatOpenAI_args \<Rightarrow> 'm) \<Rightarrow> (pystr \<Rightarrow> json \<Rightarrow> prompt_template) \<Rightarrow> bool \<Rightarrow> pystr \<Rightarrow>
   model_configs \<Rightarrow> ('m, 'cb) loop_state \<Rightarrow> ('m, 'cb) loop_state" where
  "inner_loop gco gpt stream model_type [] st = st"
| "inner_loop gco gpt stream model_type (item # items) st =
     inner_loop gco gpt stream model_type items (loop_body gco gpt stream model_type item st)"

fun outer_loop ::
  "('cb ChatOpenAI_args \<Rightarrow> 'm) \<Rightarrow> (pystr \<Rightarrow> json \<Rightarrow> prompt_template) \<Rightarrow> bool \<Rightarrow> configs \<Rightarrow>
   ('m, 'cb) loop_state \<Rightarrow> ('m, 'cb) loop_state" where
  "outer_loop gco gpt stream [] st = st"
| "outer_loop gco gpt stream (c # cs) st =
     outer_loop gco gpt stream cs (inner_loop gco gpt stream (fst c) (snd c) st)"

definition run_models_from_config ::
  "('cb ChatOpenAI_args \<Rightarrow> 'm) \<Rightarrow> (pystr \<Rightarrow> json \<Rightarrow> prompt_template) \<Rightarrow> configs option \<Rightarrow>
   'cb option \<Rightarrow> bool \<Rightarrow> ('m, 'cb) loop_state" where
  "run_models_from_config gco gpt configs cbs stream =
     outer_loop gco gpt stream (case configs of None \<Rightarrow> [] | Some c \<Rightarrow> c)
       \<lparr>callbacks_var = cbs, models_var = [], prompts_var = [], built = []\<rparr>"

definition create_models_from_config ::
  "('cb ChatOpenAI_args \<Rightarrow> 'm) \<Rightarrow> (pystr \<Rightarrow> json \<Rightarrow> prompt_template) \<Rightarrow> configs option \<Rightarrow>
   'cb option \<Rightarrow> bool \<Rightarrow> (pystr \<times> 'm) list \<times> (pystr \<times> prompt_template) list" where
  "create_models_from_config gco gpt configs cbs stream =
     (let st = run_models_from_config gco gpt configs cbs stream
      in (models_var st, prompts_var st))"




subsection \<open>create_models_chains\<close>

text \<open>
  \<open>history\<close> is declared \<open>Union[int, List[History]]\<close>: the request body may carry an
  integer or a list of role/content pairs.
\<close>

record History =
  role :: pystr
  content :: pystr

datatype history_arg =
    HistoryInt int
  | HistoryList "History list"

text \<open>\<open>if history\<close>: an integer is true when it is not zero, a list when it is not empty.\<close>

fun history_truthy :: "history_arg \<Rightarrow> bool" where
  "history_truthy (HistoryInt n) = (n \<noteq> 0)"
| "history_truthy (HistoryList hs) = (hs \<noteq> [])"

text \<open>\<open>for h in history\<close>: an integer is not iterable.\<close>

fun iterate :: "history_arg \<Rightarrow> exception + History list" where
  "iterate (HistoryInt n) = Inl TypeError"
| "iterate (HistoryList hs) = Inr hs"

text \<open>
  \<open>h.to_msg_template(is_raw)\<close> of the \<open>History\<close> class, with \<open>None\<close> for a call that leaves
  the argument to its default; \<open>ChatPromptTemplate.from_messages\<close>; the database-backed
  memory; the chain object \<open>LLMChain\<close> makes; the classifier chain
  \<open>PromptTemplate.from_template(p) | model | StrOutputParser()\<close>; the three agent
  constructors; and the two shapes of the returned chain,
  \<open>{"input": ...} | agent_executor\<close> and \<open>{"input": ...} | chain\<close>.
\<close>

datatype msg_template = to_msg_template History "bool option"

datatype ChatPromptTemplate = from_messages "msg_template list"

datatype 'm memory =
  ConversationBufferDBMemory (mem_conversation_id: pystr) (mem_llm: 'm) (message_limit: int)

datatype 'm llm_chain =
  llm_chain (chain_prompt: ChatPromptTemplate) (chain_llm: 'm)
    (chain_memory: "'m memory option")

text \<open>
  The call \<open>LLMChain(prompt=..., llm=..., memory=...)\<close>. The class validates its fields:
  \<open>prompt\<close> is required to be a prompt template, and \<open>None\<close> is refused with a
  \<open>ValidationError\<close>.
\<close>

definition LLMChain ::
  "ChatPromptTemplate option \<Rightarrow> 'm \<Rightarrow> 'm memory option \<Rightarrow> exception + 'm llm_chain" where
  "LLMChain prompt llm memory =
     (case prompt of
        None \<Rightarrow> Inl ValidationError
      | Some p \<Rightarrow> Inr (llm_chain p llm memory))"

datatype 'm classifier = classifier_of prompt_template 'm

record tool =
  name :: pystr

datatype AgentType = STRUCTURED_CHAT_ZERO_SHOT_REACT_DESCRIPTION

datatype ('m, 'cb) agent_executor =
    initialize_glm3_agent (agent_llm: 'm) (agent_tools: "tool list")
      (agent_prompt: prompt_template) (agent_memory: "'m memory option")
      (agent_callbacks: "'cb option") (agent_verbose: bool)
  | initialize_qwen_agent (agent_llm: 'm) (agent_tools: "tool list")
      (agent_prompt: prompt_template) (agent_memory: "'m memory option")
      (agent_callbacks: "'cb option") (agent_verbose: bool)
  | initialize_agent (agent_llm: 'm) (agent_tools: "tool list")
      (agent_callbacks: "'cb option") (agent_type: AgentType)
      (agent_memory: "'m memory option") (agent_verbose: bool)

datatype ('m, 'cb) full_chain =
    input_to_agent "('m, 'cb) agent_executor"
  | input_to_chain "'m llm_chain"

text \<open>
  \<open>s.lower()\<close> maps the ASCII capitals to small letters. Python also lowers capitals
  outside ASCII; of those only U+0130 and U+212A give an ASCII letter (\<open>i\<close> and \<open>k\<close>),
  and neither occurs in the two substrings the source looks for, so the membership tests
  below are the ones Python computes.
\<close>

definition lower_cp :: "nat \<Rightarrow> nat" where
  "lower_cp c = (if 65 \<le> c \<and> c \<le> 90 then c + 32 else c)"

definition lower :: "pystr \<Rightarrow> pystr" where
  "lower s = map lower_cp s"

text \<open>\<open>sub in s\<close> for strings: \<open>sub\<close> occurs in \<open>s\<close> as a contiguous run.\<close>

fun contains :: "'a list \<Rightarrow> 'a list \<Rightarrow> bool" where
  "contains sub [] = (sub = [])"
| "contains sub (c # cs) = (prefix sub (c # cs) \<or> contains sub cs)"

text \<open>
  Lines 54 to 67: the branch on \<open>history\<close>, \<open>conversation_id\<close> and \<open>history_len\<close> that
  sets the local variables \<open>chat_prompt\<close> and \<open>memory\<close>. \<open>History.from_data\<close> is outside
  the two files and is a parameter.
\<close>

definition prompt_and_memory ::
  "(History \<Rightarrow> History) \<Rightarrow> history_arg \<Rightarrow> int \<Rightarrow> (pystr \<times> prompt_template) list \<Rightarrow>
   (pystr \<times> 'm) list \<Rightarrow> pystr \<Rightarrow>
   exception + (ChatPromptTemplate option \<times> 'm memory option)" where
  "prompt_and_memory from_data history history_len prompts models conversation_id =
     (if history_truthy history then
        and_then (iterate history) (\<lambda>hs.
          let history' = map from_data hs in
          and_then (getitem prompts (S ''llm_model'')) (\<lambda>p.
            let input_msg =
                  to_msg_template \<lparr>role = S ''user'', content = p\<rparr> (Some False);
                chat_prompt =
                  from_messages (map (\<lambda>i. to_msg_template i None) history' @ [input_msg])
            in Inr (Some chat_prompt, None)))
      else if conversation_id \<noteq> [] \<and> history_len > 0 then
        and_then (getitem models (S ''llm_model'')) (\<lambda>m.
          Inr (None, Some (ConversationBufferDBMemory conversation_id m history_len)))
      else
        and_then (getitem prompts (S ''llm_model'')) (\<lambda>p.
          let input_msg =
                to_msg_template \<lparr>role = S ''user'', content = p\<rparr> (Some False)
          in Inr (Some (from_messages [input_msg]), None)))"

text \<open>
  Lines 80 to 116: the choice of the chain to return, given the local variables \<open>memory\<close>
  and \<open>chain\<close>. \<open>name_of\<close> reads the \<open>model_name\<close> attribute of a model object.
\<close>

definition select_chain ::
  "('m \<Rightarrow> pystr) \<Rightarrow> (pystr \<times> prompt_template) list \<Rightarrow> (pystr \<times> 'm) list \<Rightarrow> tool list \<Rightarrow>
   'cb option \<Rightarrow> 'm memory option \<Rightarrow> 'm llm_chain \<Rightarrow> exception + ('m, 'cb) full_chain" where
  "select_chain name_of prompts models tools cbs memory chain =
     (if map_of models (S ''action_model'') \<noteq> None \<and> tools \<noteq> [] then
        and_then (getitem models (S ''action_model'')) (\<lambda>am.
          if contains (S ''chatglm3'') (lower (name_of am)) then
            and_then (getitem prompts (S ''action_model'')) (\<lambda>ap.
              Inr (input_to_agent (initialize_glm3_agent am tools ap memory cbs True)))
          else if contains (S ''qwen'') (lower (name_of am)) then
            and_then (getitem prompts (S ''action_model'')) (\<lambda>ap.
              Inr (input_to_agent (initialize_qwen_agent am tools ap memory cbs True)))
          else
            Inr (input_to_agent
                  (initialize_agent am tools cbs STRUCTURED_CHAT_ZERO_SHOT_REACT_DESCRIPTION
                     memory True)))
      else Inr (input_to_chain chain))"

text \<open>
  The whole function. Its first statement stores \<open>metadata\<close> in the global \<open>container\<close>:
  the first component of the result is the value of \<open>container.metadata\<close> after the call,
  the second is the returned chain or the exception raised.
\<close>

definition create_models_chains ::
  "(History \<Rightarrow> History) \<Rightarrow> ('m \<Rightarrow> pystr) \<Rightarrow> history_arg \<Rightarrow> int \<Rightarrow>
   (pystr \<times> prompt_template) list \<Rightarrow> (pystr \<times> 'm) list \<Rightarrow> tool list \<Rightarrow> 'cb option \<Rightarrow> pystr \<Rightarrow>
   json \<Rightarrow> json \<times> (exception + ('m, 'cb) full_chain)" where
  "create_models_chains from_data name_of history history_len prompts models tools cbs
       conversation_id metadata =
     (metadata,
      and_then (prompt_and_memory from_data history history_len prompts models conversation_id)
        (\<lambda>pm.
          let chat_prompt = fst pm; memory = snd pm in
          and_then (getitem models (S ''llm_model'')) (\<lambda>llm.
            and_then (LLMChain chat_prompt llm memory) (\<lambda>chain.
              and_then (getitem prompts (S ''preprocess_model'')) (\<lambda>pp.
                and_then (getitem models (S ''preprocess_model'')) (\<lambda>pmodel.
                  let classifier_chain = classifier_of pp pmodel in
                  select_chain name_of prompts models tools cbs memory chain))))))"

subsection \<open>chat\<close>

text \<open>
  What the endpoint uses from outside the two files: the database insert (it returns the
  new message id), \<open>get_ChatOpenAI\<close> and the \<open>model_name\<close> attribute of the objects it
  returns, the prompt table, \<open>History.from_data\<close>, the tool registry, the chunks
  that the callback handler's iterator yields while the task runs
  \<open>full_chain.ainvoke({"input": query})\<close>, \<open>json.loads\<close> and the printing of floats. \<open>'txt\<close>
  is the type of the chunks: \<open>json.loads\<close> reads a value from one or raises.
\<close>

datatype handler = AgentExecutorAsyncIteratorCallbackHandler

record ('txt, 'm) externals =
  add_message_to_db :: "pystr \<Rightarrow> pystr \<Rightarrow> pystr \<Rightarrow> json"
  get_ChatOpenAI :: "handler list ChatOpenAI_args \<Rightarrow> 'm"
  model_name_of :: "'m \<Rightarrow> pystr"
  get_prompt_template :: "pystr \<Rightarrow> json \<Rightarrow> prompt_template"
  from_data_of :: "History \<Rightarrow> History"
  all_tools :: "tool list"
  aiter :: "('m, handler list) full_chain \<Rightarrow> pystr \<Rightarrow> 'txt list"
  json_loads :: "'txt \<Rightarrow> exception + json"
  float_repr :: "rat \<Rightarrow> pystr"

text \<open>\<open>data[k] = v\<close>: item assignment with a string key works on a dict only.\<close>

fun setitem :: "json \<Rightarrow> pystr \<Rightarrow> json \<Rightarrow> exception + json" where
  "setitem (JObj kvs) k v = Inr (JObj (AList.update k v kvs))"
| "setitem other k v = Inl TypeError"

text \<open>Line 153: the tools of the registry whose name is a key of \<open>tool_config\<close>.\<close>

definition select_tools :: "tool list \<Rightarrow> jdict \<Rightarrow> tool list" where
  "select_tools registry tool_config = [t \<leftarrow> registry. map_of tool_config (name t) \<noteq> None]"

text \<open>
  Lines 170 to 173: the loop over the chunks. A generator hands out each item as it is
  produced, so the result is the items yielded and the exception that ended the loop, if
  one did. Each item is the text \<open>json.dumps\<close> returns, as it is.
\<close>

fun forward ::
  "('txt, 'm) externals \<Rightarrow> json \<Rightarrow> 'txt list \<Rightarrow> pystr list \<times> exception option" where
  "forward ext message_id [] = ([], None)"
| "forward ext message_id (chunk # chunks) =
     (case json_loads ext chunk of
        Inl e \<Rightarrow> ([], Some e)
      | Inr data \<Rightarrow>
          (case setitem data (S ''message_id'') message_id of
             Inl e \<Rightarrow> ([], Some e)
           | Inr data' \<Rightarrow>
               (let r = forward ext message_id chunks
                in (json_dumps (float_repr ext) data' # fst r, snd r))))"

text \<open>Line 150: the models and prompts of the request.\<close>

definition chat_models ::
  "('txt, 'm) externals \<Rightarrow> bool \<Rightarrow> configs \<Rightarrow>
   (pystr \<times> 'm) list \<times> (pystr \<times> prompt_template) list" where
  "chat_models ext stream model_config =
     create_models_from_config (get_ChatOpenAI ext) (get_prompt_template ext)
       (Some model_config) (Some []) stream"

text \<open>
  Lines 146 to 163: the callbacks, the models and prompts, the tools, and the call of
  \<open>create_models_chains\<close> with them.
\<close>

definition chat_chain ::
  "('txt, 'm) externals \<Rightarrow> json \<Rightarrow> pystr \<Rightarrow> int \<Rightarrow> history_arg \<Rightarrow> bool \<Rightarrow> configs \<Rightarrow> jdict \<Rightarrow>
   exception + ('m, handler list) full_chain" where
  "chat_chain ext metadata conversation_id history_len history stream model_config tool_config =
     (let callback = AgentExecutorAsyncIteratorCallbackHandler;
          cbs = [callback];
          mp = chat_models ext stream model_config;
          models = fst mp;
          prompts = snd mp;
          tools = select_tools (all_tools ext) tool_config
      in snd (create_models_chains (from_data_of ext) (model_name_of ext) history history_len
                prompts models tools (Some cbs) conversation_id metadata))"

text \<open>
  The generator: the message id, the chain, then the loop over the chunks of the run. An
  exception while the chain is built ends the generator before it yields anything.
\<close>

definition chat_iterator ::
  "('txt, 'm) externals \<Rightarrow> pystr \<Rightarrow> json \<Rightarrow> pystr \<Rightarrow> int \<Rightarrow> history_arg \<Rightarrow> bool \<Rightarrow> configs \<Rightarrow>
   jdict \<Rightarrow> pystr list \<times> exception option" where
  "chat_iterator ext query metadata conversation_id history_len history stream model_config
       tool_config =
     (let message_id =
            (if conversation_id \<noteq> []
             then add_message_to_db ext (S ''llm_chat'') query conversation_id
             else JNull)
      in case chat_chain ext metadata conversation_id history_len history stream model_config
                tool_config of
           Inl e \<Rightarrow> ([], Some e)
         | Inr full_chain \<Rightarrow> forward ext message_id (aiter ext full_chain query))"

text \<open>
  The response: the items the generator yields are sent one after the other as the body,
  under the given media type.
\<close>

record StreamingResponse =
  body :: "pystr list \<times> exception option"
  media_type :: pystr

definition chat ::
  "('txt, 'm) externals \<Rightarrow> pystr \<Rightarrow> json \<Rightarrow> pystr \<Rightarrow> int \<Rightarrow> history_arg \<Rightarrow> bool \<Rightarrow> configs \<Rightarrow>
   jdict \<Rightarrow> StreamingResponse" where
  "chat ext query metadata conversation_id history_len history stream model_config tool_config =
     \<lparr>body = chat_iterator ext query metadata conversation_id history_len history stream
               model_config tool_config,
      media_type = S ''text/event-stream''\<rparr>"

section \<open>webui_pages/dialogue/dialogue.py\<close>

subsection \<open>The pattern of parse_command\<close>

text \<open>
  \<open>\s\<close> in a \<open>str\<close> pattern and \<open>str.strip()\<close> use the same class of white space: the
  code points for which \<open>str.isspace\<close> holds.
\<close>

definition is_space :: "nat \<Rightarrow> bool" where
  "is_space c =
     ((9 \<le> c \<and> c \<le> 13) \<or> (28 \<le> c \<and> c \<le> 32) \<or> c = 133 \<or> c = 160 \<or> c = 5760 \<or>
      (8192 \<le> c \<and> c \<le> 8202) \<or> c = 8232 \<or> c = 8233 \<or> c = 8239 \<or> c = 8287 \<or> c = 12288)"

definition strip :: "pystr \<Rightarrow> pystr" where
  "strip s = rev (dropWhile is_space (rev (dropWhile is_space s)))"

text \<open>
  \<open>re.match(r"/([^\s]+)\s*(.*)", text)\<close> and \<open>m.groups()\<close>. The match starts at the first
  character: a slash, then the longest run of characters that are not white space (at
  least one), then all white space that follows, then everything up to the next line feed
  (\<open>.\<close> matches every character but \<open>\n\<close>). Each part after the first run can match the
  empty string, so the greedy choice is the match.
\<close>

definition re_match :: "pystr \<Rightarrow> (pystr \<times> pystr) option" where
  "re_match txt =
     (case txt of
        [] \<Rightarrow> None
      | c # rest \<Rightarrow>
          if c \<noteq> 47 then None
          else
            let cmd = takeWhile (\<lambda>x. \<not> is_space x) rest in
            if cmd = [] then None
            else
              Some (cmd,
                    takeWhile (\<lambda>x. x \<noteq> 10)
                      (dropWhile is_space (dropWhile (\<lambda>x. \<not> is_space x) rest))))"

subsection \<open>The state parse_command works on\<close>

text \<open>
  The chat box of the component library keeps one message list per chat name, and the
  name of the chat in use; the Streamlit session state holds \<open>conversation_ids\<close> (chat
  name to conversation id) and \<open>cur_conv_name\<close> (\<open>None\<close> when the key is not set, which is
  what \<open>st.session_state.get\<close> returns then). \<open>shown_errors\<close> lists the \<open>st.error\<close> calls and
  \<open>modal_opened\<close> records \<open>modal.open()\<close>. The three messages are Chinese sentences in the
  source and are named here by what they say.
\<close>

datatype ui_error =
    name_exists pystr
  | last_conversation
  | invalid_name "pystr option"

record 'm ui_state =
  histories :: "(pystr \<times> 'm list) list"
  cur_chat_name :: pystr
  conversation_ids :: "(pystr \<times> pystr) list"
  cur_conv_name :: "pystr option"
  shown_errors :: "ui_error list"
  modal_opened :: bool

text \<open>
  The chat box operations the function calls, as the component library has them. The chat
  names are the keys of the message lists. \<open>del_chat_name\<close> pops the list of a chat and makes
  the first remaining chat the one in use; it then returns the popped list, a local
  variable that is not bound when the name is not a chat, so for such a name it raises
  \<open>UnboundLocalError\<close> and changes nothing; were no chat left after the pop, taking the
  first one would raise \<open>IndexError\<close>. Its result here is the exception raised, if any,
  and the state after the call. \<open>reset_history\<close> sets the list of a chat (the one in use when
  no name is given) to empty, and so makes the name a chat if it was none.
\<close>

definition get_chat_names :: "'m ui_state \<Rightarrow> pystr list" where
  "get_chat_names st = map fst (histories st)"

definition del_chat_name :: "pystr \<Rightarrow> 'm ui_state \<Rightarrow> exception option \<times> 'm ui_state" where
  "del_chat_name nm st =
     (if map_of (histories st) nm = None then (Some UnboundLocalError, st)
      else
        let hs = AList.delete nm (histories st) in
        (case hs of
           [] \<Rightarrow> (Some IndexError, st\<lparr>histories := hs\<rparr>)
         | h # _ \<Rightarrow> (None, st\<lparr>histories := hs, cur_chat_name := fst h\<rparr>)))"

definition reset_history :: "pystr option \<Rightarrow> 'm ui_state \<Rightarrow> 'm ui_state" where
  "reset_history nm st =
     (let target = (case nm of None \<Rightarrow> cur_chat_name st
                    | Some n \<Rightarrow> if n = [] then cur_chat_name st else n)
      in st\<lparr>histories := AList.update target [] (histories st)\<rparr>)"

subsection \<open>parse_command\<close>

text \<open>The default name of a new conversation: the two characters U+4F1A U+8BDD, then \<open>i\<close>.\<close>

definition default_name :: "nat \<Rightarrow> pystr" where
  "default_name i = [20250, 35805] @ decimal i"

text \<open>The value a decimal string denotes; \<open>decimal\<close> is undone by it.\<close>

definition decimal_value :: "pystr \<Rightarrow> nat" where
  "decimal_value s = foldl (\<lambda>a d. 10 * a + (d - 48)) 0 s"

text \<open>
  Lines 73 to 78: the \<open>while True\<close> loop that looks for the first default name not among
  the chat names, counting from \<open>i\<close>.
\<close>

function first_free_name :: "nat \<Rightarrow> pystr list \<Rightarrow> pystr" where
  "first_free_name i conv_names =
     (if default_name i \<notin> set conv_names then default_name i
      else first_free_name (i + 1) conv_names)"
  by pat_completeness auto

lemma decimal_value_snoc: "decimal_value (s @ [d]) = 10 * decimal_value s + (d - 48)"
  by (simp add: decimal_value_def)

lemma decimal_value_decimal: "decimal_value (decimal n) = n"
proof (induction n rule: decimal.induct)
  case (1 n)
  show ?case
  proof (cases "n < 10")
    case True
    then show ?thesis by (simp add: decimal.simps[of n] decimal_value_def)
  next
    case False
    then have "decimal n = decimal (n div 10) @ [48 + n mod 10]"
      by (simp add: decimal.simps[of n])
    then have "decimal_value (decimal n) = 10 * decimal_value (decimal (n div 10)) + n mod 10"
      by (simp add: decimal_value_snoc)
    with 1 False show ?thesis by simp
  qed
qed

lemma default_name_inj: "default_name i = default_name j \<Longrightarrow> i = j"
proof -
  assume "default_name i = default_name j"
  then have "decimal i = decimal j" by (simp add: default_name_def)
  then have "decimal_value (decimal i) = decimal_value (decimal j)" by simp
  then show "i = j" by (simp only: decimal_value_decimal)
qed

text \<open>
  The loop ends because the default names are pairwise different and only finitely many
  of them are chat names: the numbers from \<open>i\<close> on whose default name is taken form a
  finite set that loses \<open>i\<close> at each round.
\<close>

definition taken_from :: "nat \<Rightarrow> pystr list \<Rightarrow> nat set" where
  "taken_from i conv_names = {j. i \<le> j \<and> default_name j \<in> set conv_names}"

lemma finite_taken_from: "finite (taken_from i conv_names)"
proof -
  have "taken_from i conv_names \<subseteq> default_name -` set conv_names"
    by (auto simp: taken_from_def)
  moreover have "finite (default_name -` set conv_names)"
    by (rule finite_vimageI) (auto simp: inj_on_def dest: default_name_inj)
  ultimately show ?thesis by (rule finite_subset)
qed

lemma taken_from_step:
  assumes "default_name i \<in> set conv_names"
  shows "card (taken_from (i + 1) conv_names) < card (taken_from i conv_names)"
proof (rule psubset_card_mono)
  show "finite (taken_from i conv_names)" by (rule finite_taken_from)
  have "i \<in> taken_from i conv_names" using assms by (simp add: taken_from_def)
  moreover have "i \<notin> taken_from (i + 1) conv_names" by (simp add: taken_from_def)
  moreover have "taken_from (i + 1) conv_names \<subseteq> taken_from i conv_names"
    by (auto simp: taken_from_def)
  ultimately show "taken_from (i + 1) conv_names \<subset> taken_from i conv_names" by blast
qed

termination first_free_name
  by (relation "measure (\<lambda>(i, conv_names). card (taken_from i conv_names))")
     (auto dest: taken_from_step)

declare first_free_name.simps [simp del]

text \<open>
  The function itself. \<open>fresh\<close> is the value of \<open>uuid.uuid4().hex\<close>. The result is the
  outcome of the call, the returned flag or the exception raised, and the state after the
  call; \<open>time.sleep\<close> changes nothing here.
\<close>

definition parse_command ::
  "pystr \<Rightarrow> pystr \<Rightarrow> 'm ui_state \<Rightarrow> (exception + bool) \<times> 'm ui_state" where
  "parse_command fresh txt st =
     (case re_match txt of
        None \<Rightarrow> (Inr False, st)
      | Some m \<Rightarrow>
          let cmd = fst m;
              nm = strip (snd m);
              conv_names = get_chat_names st
          in
          if cmd = S ''help'' then (Inr True, st\<lparr>modal_opened := True\<rparr>)
          else if cmd = S ''new'' then
            (let nm' = (if nm = [] then first_free_name 1 conv_names else nm) in
             if map_of (conversation_ids st) nm' \<noteq> None
             then (Inr True, st\<lparr>shown_errors := shown_errors st @ [name_exists nm']\<rparr>)
             else (Inr True,
                   st\<lparr>conversation_ids := AList.update nm' fresh (conversation_ids st),
                      cur_conv_name := Some nm'\<rparr>))
          else if cmd = S ''del'' then
            (let target = (if nm \<noteq> [] then Some nm else cur_conv_name st) in
             if length conv_names = 1
             then (Inr True, st\<lparr>shown_errors := shown_errors st @ [last_conversation]\<rparr>)
             else
               (case target of
                  None \<Rightarrow>
                    (Inr True, st\<lparr>shown_errors := shown_errors st @ [invalid_name target]\<rparr>)
                | Some n \<Rightarrow>
                    if n = [] \<or> map_of (conversation_ids st) n = None
                    then (Inr True,
                          st\<lparr>shown_errors := shown_errors st @ [invalid_name target]\<rparr>)
                    else
                      (case del_chat_name n
                              (st\<lparr>conversation_ids :=
                                    AList.delete n (conversation_ids st)\<rparr>) of
                         (Some e, st') \<Rightarrow> (Inl e, st')
                       | (None, st') \<Rightarrow> (Inr True, st'\<lparr>cur_conv_name := Some []\<rparr>))))
          else if cmd = S ''clear'' then
            (Inr True, reset_history (if nm = [] then None else Some nm) st)
          else (Inr True, st))"

subsection \<open>The loop over the streamed events in dialogue_page\<close>

text \<open>
  \<open>AgentStatus\<close> is defined outside the two files; its members are integer codes and are
  parameters here. An event is a dict parsed from JSON, so its \<open>status\<close> is compared with
  a code the way Python compares a JSON number with an \<open>int\<close>.
\<close>

record AgentStatus =
  llm_new_token :: int
  llm_end :: int
  agent_action :: int
  agent_finish :: int
  error :: int

fun status_eq :: "json \<Rightarrow> int \<Rightarrow> bool" where
  "status_eq (JInt i) n = (i = n)"
| "status_eq (JBool b) n = ((if b then 1 else 0) = n)"
| "status_eq (JFloat r) n = (r = of_int n)"
| "status_eq other n = False"

text \<open>
  The arguments of \<open>api.chat_chat\<close>, and the calls the loop makes on the page: the request
  itself, \<open>st.error\<close>, and the four forms of \<open>chat_box.update_msg\<close> (the tool call shown with
  its name and input at element 1; the text so far with its streaming flag, element index
  and message id; element 1 marked complete; the final text at the last element).
\<close>

record chat_request =
  req_query :: pystr
  req_metadata :: json
  req_history :: "jdict list"
  req_model_config :: json
  req_conversation_id :: pystr
  req_tool_config :: jdict

datatype ui_call =
    api_chat_chat chat_request
  | st_error json
  | update_msg_tool json json
  | update_msg_text pystr bool int json
  | update_msg_complete
  | update_msg_final json

text \<open>Whether a call is a request to the endpoint.\<close>

definition is_request :: "ui_call \<Rightarrow> bool" where
  "is_request c = (case c of api_chat_chat r \<Rightarrow> True | _ \<Rightarrow> False)"

text \<open>The local variables \<open>text\<close>, \<open>message_id\<close> and \<open>tool_called\<close> of the loop.\<close>

record loop_vars =
  text_var :: pystr
  message_id_var :: json
  tool_called_var :: bool

text \<open>
  Lines 289 to 315, one round of the loop for the event \<open>d\<close>: the variables after the
  round, the calls made, and the exception raised, if any. \<open>message_id\<close> is assigned
  before anything can raise.
\<close>

definition on_event ::
  "AgentStatus \<Rightarrow> jdict \<Rightarrow> loop_vars \<Rightarrow> loop_vars \<times> ui_call list \<times> exception option" where
  "on_event status d v =
     (let mid = dict_get d (S ''message_id'') (JStr []);
          v1 = v\<lparr>message_id_var := mid\<rparr>;
          element_index = (if \<not> tool_called_var v then 0 else - 1)
      in case getitem d (S ''status'') of
           Inl e \<Rightarrow> (v1, [], Some e)
         | Inr s \<Rightarrow>
             if status_eq s (error status) then
               (case getitem d (S ''text'') of
                  Inl e \<Rightarrow> (v1, [], Some e)
                | Inr t \<Rightarrow> (v1, [st_error t], None))
             else if status_eq s (agent_action status) then
               (case getitem d (S ''tool_name'') of
                  Inl e \<Rightarrow> (v1, [], Some e)
                | Inr tn \<Rightarrow>
                    (case getitem d (S ''tool_input'') of
                       Inl e \<Rightarrow> (v1, [], Some e)
                     | Inr ti \<Rightarrow>
                         (v1\<lparr>tool_called_var := True, text_var := []\<rparr>,
                          [update_msg_tool tn ti], None)))
             else if status_eq s (llm_new_token status) then
               (case getitem d (S ''text'') of
                  Inl e \<Rightarrow> (v1, [], Some e)
                | Inr (JStr t) \<Rightarrow>
                    (v1\<lparr>text_var := text_var v @ t\<rparr>,
                     [update_msg_text (text_var v @ t) True element_index mid], None)
                | Inr other \<Rightarrow> (v1, [], Some TypeError))
             else if status_eq s (llm_end status) then
               (v1, [update_msg_text (text_var v) False element_index mid], None)
             else if status_eq s (agent_finish status) then
               (case getitem d (S ''text'') of
                  Inl e \<Rightarrow> (v1, [update_msg_complete], Some e)
                | Inr t \<Rightarrow> (v1, [update_msg_complete, update_msg_final t], None))
             else (v1, [], None))"

text \<open>
  The \<open>for\<close> loop: the calls made, the variables at the end, and the exception that ended
  it, if one did.
\<close>

fun event_loop ::
  "AgentStatus \<Rightarrow> jdict list \<Rightarrow> loop_vars \<Rightarrow> ui_call list \<times> loop_vars \<times> exception option" where
  "event_loop status [] v = ([], v, None)"
| "event_loop status (d # ds) v =
     (case on_event status d v of
        (v', calls, Some e) \<Rightarrow> (calls, v', Some e)
      | (v', calls, None) \<Rightarrow>
          (let r = event_loop status ds v' in (calls @ fst r, snd r)))"

text \<open>
  Lines 278 to 315: the variables are initialised, \<open>api.chat_chat\<close> is called once with the
  request, and the loop runs over the events it yields. \<open>api\<close> gives those events.
\<close>

definition stream_chat ::
  "AgentStatus \<Rightarrow> (chat_request \<Rightarrow> jdict list) \<Rightarrow> chat_request \<Rightarrow>
   ui_call list \<times> loop_vars \<times> exception option" where
  "stream_chat status api req =
     (let v0 = \<lparr>text_var = [], message_id_var = JStr [], tool_called_var = False\<rparr>;
          r = event_loop status (api req) v0
      in (api_chat_chat req # fst r, snd r))"

section \<open>Concrete inputs\<close>


text \<open>
  In the examples a model object is the record of the arguments it was built from, so
  \<open>get_ChatOpenAI\<close> is the identity and the attribute \<open>model_name\<close> is the field. A chat
  model built with the default parameters, two tools, and prompts and models for the three
  model types the chain construction reads; the action model's name is left open.
\<close>

definition chat_model :: "pystr \<Rightarrow> handler list ChatOpenAI_args" where
  "chat_model nm =
     \<lparr>model_name = nm, temperature = JFloat (1 / 2), max_tokens = JInt 1000,
      callbacks = None, streaming = True\<rparr>"

definition calculate :: tool where
  "calculate = \<lparr>name = S ''calculate''\<rparr>"

definition weather_check :: tool where
  "weather_check = \<lparr>name = S ''weather_check''\<rparr>"

definition example_prompts :: "(pystr \<times> prompt_template) list" where
  "example_prompts =
     [(S ''llm_model'', S ''input''), (S ''preprocess_model'', S ''classify''),
      (S ''action_model'', S ''act'')]"

definition example_models :: "pystr \<Rightarrow> (pystr \<times> handler list ChatOpenAI_args) list" where
  "example_models nm =
     [(S ''llm_model'', chat_model (S ''gpt-4'')),
      (S ''preprocess_model'', chat_model (S ''gpt-3.5'')),
      (S ''action_model'', chat_model nm)]"


text \<open>
  Externals for a run of the endpoint: the database gives the id \<open>m1\<close>, the registry has
  the two tools, the run yields two events (a token and an end marker that already has a
  \<open>message_id\<close>), and a chunk is identified with the value it denotes. No float occurs.
  The model configuration names one model for each of the three model types.
\<close>

definition example_ext :: "(json, handler list ChatOpenAI_args) externals" where
  "example_ext =
     \<lparr>add_message_to_db = (\<lambda>chat_type query conversation_id. JStr (S ''m1'')),
      get_ChatOpenAI = (\<lambda>args. args),
      model_name_of = model_name,
      get_prompt_template = (\<lambda>model_type prompt_name. model_type),
      from_data_of = (\<lambda>h. h),
      all_tools = [calculate, weather_check],
      aiter = (\<lambda>full_chain query.
                 [JObj [(S ''status'', JInt 2), (S ''text'', JStr query)],
                  JObj [(S ''message_id'', JInt 0), (S ''status'', JInt 3)]]),
      json_loads = Inr,
      float_repr = (\<lambda>r. [])\<rparr>"

definition example_model_config :: configs where
  "example_model_config =
     [(S ''llm_model'', [(S ''gpt-4'', [])]),
      (S ''preprocess_model'', [(S ''gpt-3.5'', [])]),
      (S ''action_model'', [(S ''Qwen-14B-Chat'', [])])]"

text \<open>
  Two states of the page: one with the chats \<open>default\<close> and \<open>work\<close>, \<open>work\<close> being the
  current conversation, and one with the chat \<open>default\<close> alone. Messages are numbers here.
\<close>

definition two_chats :: "nat ui_state" where
  "two_chats =
     \<lparr>histories = [(S ''default'', [1, 2]), (S ''work'', [3])],
      cur_chat_name = S ''work'',
      conversation_ids = [(S ''default'', S ''id0''), (S ''work'', S ''id1'')],
      cur_conv_name = Some (S ''work''),
      shown_errors = [],
      modal_opened = False\<rparr>"

definition one_chat :: "nat ui_state" where
  "one_chat =
     \<lparr>histories = [(S ''default'', [1, 2])],
      cur_chat_name = S ''default'',
      conversation_ids = [(S ''default'', S ''id0'')],
      cur_conv_name = None,
      shown_errors = [],
      modal_opened = False\<rparr>"

text \<open>
  Status codes, a request, and the events of a response: a token, an error, another token
  and the end of the answer.
\<close>

definition example_status :: AgentStatus where
  "example_status =
     \<lparr>llm_new_token = 2, llm_end = 3, agent_action = 4, agent_finish = 5, error = 8\<rparr>"

definition example_request :: chat_request where
  "example_request =
     \<lparr>req_query = S ''hi'', req_metadata = JNull, req_history = [],
      req_model_config = JObj [], req_conversation_id = S ''id1'', req_tool_config = []\<rparr>"

definition example_events :: "jdict list" where
  "example_events =
     [[(S ''status'', JInt 2), (S ''text'', JStr (S ''he'')), (S ''message_id'', JStr (S ''m1''))],
      [(S ''status'', JInt 8), (S ''text'', JStr (S ''boom'')), (S ''message_id'', JStr (S ''m1''))],
      [(S ''status'', JInt 2), (S ''text'', JStr (S ''y'')), (S ''message_id'', JStr (S ''m1''))],
      [(S ''status'', JInt 3), (S ''message_id'', JStr (S ''m1''))]]"

section \<open>Properties of create_models_from_config\<close>











section \<open>Properties of create_models_chains\<close>

lemma getitem_Some: "map_of d k = Some v \<Longrightarrow> getitem d k = Inr v"
  by (simp add: getitem_def)

lemma and_then_Inr: "and_then (Inr v) f = f v"
  by (simp add: and_then_def)

lemma and_then_Inl: "and_then (Inl e) f = Inl e"
  by (simp add: and_then_def)

lemma example_stage:
  "prompt_and_memory (\<lambda>h. h) (HistoryList []) (- 1) example_prompts (example_models nm) [] =
     Inr (Some (from_messages [to_msg_template \<lparr>role = S ''user'', content = S ''input''\<rparr>
                                 (Some False)]), None)"
  by (simp add: prompt_and_memory_def example_prompts_def getitem_def and_then_def S_def)

lemma example_lookups:
  "map_of (example_models nm) (S ''llm_model'') = Some (chat_model (S ''gpt-4''))"
  "map_of example_prompts (S ''preprocess_model'') = Some (S ''classify'')"
  "map_of (example_models nm) (S ''preprocess_model'') = Some (chat_model (S ''gpt-3.5''))"
  "map_of (example_models nm) (S ''action_model'') = Some (chat_model nm)"
  "map_of example_prompts (S ''action_model'') = Some (S ''act'')"
  "map_of example_prompts (S ''llm_model'') = Some (S ''input'')"
  by (simp_all add: example_models_def example_prompts_def S_def)

lemma example_names:
  "contains (S ''chatglm3'') (lower (model_name (chat_model (S ''THUDM/ChatGLM3-6B''))))"
  "\<not> contains (S ''chatglm3'') (lower (model_name (chat_model (S ''Qwen-14B-Chat''))))"
  "contains (S ''qwen'') (lower (model_name (chat_model (S ''Qwen-14B-Chat''))))"
  "\<not> contains (S ''chatglm3'') (lower (model_name (chat_model (S ''gpt-4''))))"
  "\<not> contains (S ''qwen'') (lower (model_name (chat_model (S ''gpt-4''))))"
  by (simp_all add: chat_model_def lower_def lower_cp_def S_def)

text \<open>
  C1, as the code has it. Take a call in which the steps before the selection go through:
  the branch on the history builds a chat prompt, \<open>models\<close> has \<open>llm_model\<close>, and \<open>prompts\<close>
  and \<open>models\<close> have \<open>preprocess_model\<close>. If \<open>models\<close> has \<open>action_model\<close> and the tool list
  is not empty (and \<open>prompts\<close> has \<open>action_model\<close> where the GLM3 or Qwen agent needs it),
  the call returns the agent chosen by the lowercased model name: GLM3 when it contains
  \<open>chatglm3\<close>, else Qwen when it contains \<open>qwen\<close>, else the structured-chat zero-shot
  agent. If \<open>action_model\<close> is missing from \<open>models\<close> or the tool list is empty, it returns
  the plain LLM chain.
\<close>

theorem agent_by_model_name:
  assumes "prompt_and_memory from_data history history_len prompts models conversation_id =
             Inr (Some chat_prompt, memory)"
    and "map_of models (S ''llm_model'') = Some llm"
    and "map_of prompts (S ''preprocess_model'') = Some pp"
    and "map_of models (S ''preprocess_model'') = Some pmodel"
  shows "(map_of models (S ''action_model'') = Some am \<and> tools \<noteq> [] \<and>
          (map_of prompts (S ''action_model'') = Some ap \<or>
           \<not> contains (S ''chatglm3'') (lower (name_of am)) \<and>
           \<not> contains (S ''qwen'') (lower (name_of am))) \<longrightarrow>
          snd (create_models_chains from_data name_of history history_len prompts models tools cbs
                 conversation_id metadata) =
            Inr (input_to_agent
                  (if contains (S ''chatglm3'') (lower (name_of am))
                   then initialize_glm3_agent am tools ap memory cbs True
                   else if contains (S ''qwen'') (lower (name_of am))
                   then initialize_qwen_agent am tools ap memory cbs True
                   else initialize_agent am tools cbs STRUCTURED_CHAT_ZERO_SHOT_REACT_DESCRIPTION
                          memory True))) \<and>
         (map_of models (S ''action_model'') = None \<or> tools = [] \<longrightarrow>
          snd (create_models_chains from_data name_of history history_len prompts models tools cbs
                 conversation_id metadata) =
            Inr (input_to_chain (llm_chain chat_prompt llm memory)))"
proof -
  have pre: "snd (create_models_chains from_data name_of history history_len prompts models tools cbs
                 conversation_id metadata) =
             select_chain name_of prompts models tools cbs memory
               (llm_chain chat_prompt llm memory)"
    using assms
    by (simp add: create_models_chains_def LLMChain_def getitem_Some and_then_Inr)
  have plain: "map_of models (S ''action_model'') = None \<or> tools = [] \<Longrightarrow>
          select_chain name_of prompts models tools cbs memory
            (llm_chain chat_prompt llm memory) =
            Inr (input_to_chain (llm_chain chat_prompt llm memory))"
    by (auto simp: select_chain_def)
  have agent: "select_chain name_of prompts models tools cbs memory
                 (llm_chain chat_prompt llm memory) =
            Inr (input_to_agent
                  (if contains (S ''chatglm3'') (lower (name_of am))
                   then initialize_glm3_agent am tools ap memory cbs True
                   else if contains (S ''qwen'') (lower (name_of am))
                   then initialize_qwen_agent am tools ap memory cbs True
                   else initialize_agent am tools cbs STRUCTURED_CHAT_ZERO_SHOT_REACT_DESCRIPTION
                          memory True))"
    if "map_of models (S ''action_model'') = Some am" "tools \<noteq> []"
       "map_of prompts (S ''action_model'') = Some ap \<or>
           \<not> contains (S ''chatglm3'') (lower (name_of am)) \<and>
           \<not> contains (S ''qwen'') (lower (name_of am))"
    using that by (auto simp: select_chain_def getitem_Some and_then_Inr)
  from pre plain agent show ?thesis by simp
qed

text \<open>
  The four outcomes on the example prompts and models: a ChatGLM3 name, a Qwen name and
  another name with one tool, and the ChatGLM3 name with no tool.
\<close>

theorem agent_by_model_name_witness:
  "snd (create_models_chains (\<lambda>h. h) model_name (HistoryList []) (- 1) example_prompts
          (example_models (S ''THUDM/ChatGLM3-6B'')) [calculate]
          (Some [AgentExecutorAsyncIteratorCallbackHandler]) [] JNull) =
     Inr (input_to_agent
           (initialize_glm3_agent (chat_model (S ''THUDM/ChatGLM3-6B'')) [calculate] (S ''act'')
              None (Some [AgentExecutorAsyncIteratorCallbackHandler]) True)) \<and>
   snd (create_models_chains (\<lambda>h. h) model_name (HistoryList []) (- 1) example_prompts
          (example_models (S ''Qwen-14B-Chat'')) [calculate]
          (Some [AgentExecutorAsyncIteratorCallbackHandler]) [] JNull) =
     Inr (input_to_agent
           (initialize_qwen_agent (chat_model (S ''Qwen-14B-Chat'')) [calculate] (S ''act'')
              None (Some [AgentExecutorAsyncIteratorCallbackHandler]) True)) \<and>
   snd (create_models_chains (\<lambda>h. h) model_name (HistoryList []) (- 1) example_prompts
          (example_models (S ''gpt-4'')) [calculate]
          (Some [AgentExecutorAsyncIteratorCallbackHandler]) [] JNull) =
     Inr (input_to_agent
           (initialize_agent (chat_model (S ''gpt-4'')) [calculate]
              (Some [AgentExecutorAsyncIteratorCallbackHandler])
              STRUCTURED_CHAT_ZERO_SHOT_REACT_DESCRIPTION None True)) \<and>
   snd (create_models_chains (\<lambda>h. h) model_name (HistoryList []) (- 1) example_prompts
          (example_models (S ''THUDM/ChatGLM3-6B'')) []
          (Some [AgentExecutorAsyncIteratorCallbackHandler]) [] JNull) =
     Inr (input_to_chain
           (llm_chain
              (from_messages [to_msg_template \<lparr>role = S ''user'', content = S ''input''\<rparr>
                                (Some False)])
              (chat_model (S ''gpt-4'')) None))"
  using
    agent_by_model_name [OF example_stage [of "S ''THUDM/ChatGLM3-6B''"]
        example_lookups(1) [of "S ''THUDM/ChatGLM3-6B''"]
        example_lookups(2) example_lookups(3) [of "S ''THUDM/ChatGLM3-6B''"],
      where am = "chat_model (S ''THUDM/ChatGLM3-6B'')" and tools = "[calculate]" and
        ap = "S ''act''" and name_of = model_name and
        cbs = "Some [AgentExecutorAsyncIteratorCallbackHandler]" and metadata = JNull]
    agent_by_model_name [OF example_stage [of "S ''Qwen-14B-Chat''"]
        example_lookups(1) [of "S ''Qwen-14B-Chat''"]
        example_lookups(2) example_lookups(3) [of "S ''Qwen-14B-Chat''"],
      where am = "chat_model (S ''Qwen-14B-Chat'')" and tools = "[calculate]" and
        ap = "S ''act''" and name_of = model_name and
        cbs = "Some [AgentExecutorAsyncIteratorCallbackHandler]" and metadata = JNull]
    agent_by_model_name [OF example_stage [of "S ''gpt-4''"]
        example_lookups(1) [of "S ''gpt-4''"]
        example_lookups(2) example_lookups(3) [of "S ''gpt-4''"],
      where am = "chat_model (S ''gpt-4'')" and tools = "[calculate]" and
        ap = "S ''act''" and name_of = model_name and
        cbs = "Some [AgentExecutorAsyncIteratorCallbackHandler]" and metadata = JNull]
    agent_by_model_name [OF example_stage [of "S ''THUDM/ChatGLM3-6B''"]
        example_lookups(1) [of "S ''THUDM/ChatGLM3-6B''"]
        example_lookups(2) example_lookups(3) [of "S ''THUDM/ChatGLM3-6B''"],
      where am = "chat_model (S ''THUDM/ChatGLM3-6B'')" and tools = "[]" and
        ap = "S ''act''" and name_of = model_name and
        cbs = "Some [AgentExecutorAsyncIteratorCallbackHandler]" and metadata = JNull]
  by (simp add: example_lookups example_names)

text \<open>
  C1 as the claim words it fails where a key read before the selection is missing. Here
  \<open>models\<close> has \<open>action_model\<close> with a ChatGLM3 name and there is a tool, but neither
  mapping has \<open>llm_model\<close>: the call raises \<open>KeyError\<close> and builds no agent.
\<close>

theorem agent_selection_counterexample:
  "map_of [(S ''action_model'', chat_model (S ''chatglm3-6b''))] (S ''action_model'') =
     Some (chat_model (S ''chatglm3-6b'')) \<and>
   [calculate] \<noteq> [] \<and>
   contains (S ''chatglm3'') (lower (model_name (chat_model (S ''chatglm3-6b'')))) \<and>
   snd (create_models_chains (\<lambda>h. h) model_name (HistoryList []) (- 1)
          [(S ''action_model'', S ''act'')]
          [(S ''action_model'', chat_model (S ''chatglm3-6b''))] [calculate]
          (Some [AgentExecutorAsyncIteratorCallbackHandler]) [] JNull) =
     Inl (KeyError (S ''llm_model''))"
  by (simp add: create_models_chains_def prompt_and_memory_def getitem_def and_then_def
        chat_model_def lower_def lower_cp_def S_def)





text \<open>
  C4. An integer history other than zero is true in \<open>if history\<close>, so the function goes on
  to iterate over it and raises \<open>TypeError\<close>, whatever the other arguments are; the
  response body of the endpoint ends with that exception before it yields an event.
\<close>

theorem integer_history_raises:
  assumes "n \<noteq> 0"
  shows "snd (create_models_chains from_data name_of (HistoryInt n) history_len prompts models tools cbs
                 conversation_id metadata) = Inl TypeError \<and>
         body (chat ext query metadata conversation_id history_len (HistoryInt n) stream
                 model_config tool_config) = ([], Some TypeError)"
  using assms
  by (simp add: chat_def chat_iterator_def chat_chain_def create_models_chains_def
        prompt_and_memory_def and_then_Inl Let_def)

text \<open>The request of the claim: \<open>history = 1\<close>.\<close>

theorem integer_history_raises_witness:
  "snd (create_models_chains (\<lambda>h. h) model_name (HistoryInt 1) (- 1) example_prompts
          (example_models (S ''gpt-4'')) [] (Some [AgentExecutorAsyncIteratorCallbackHandler])
          (S ''c1'') JNull) = Inl TypeError \<and>
   body (chat example_ext (S ''hi'') JNull (S ''c1'') (- 1) (HistoryInt 1) True
           example_model_config []) = ([], Some TypeError)"
  using integer_history_raises [where n = 1 and from_data = "\<lambda>h. h" and name_of = model_name and
      history_len = "- 1" and prompts = example_prompts and
      models = "example_models (S ''gpt-4'')" and tools = "[]" and
      cbs = "Some [AgentExecutorAsyncIteratorCallbackHandler]" and conversation_id = "S ''c1''" and
      metadata = JNull and ext = example_ext and query = "S ''hi''" and stream = True and
      model_config = example_model_config and tool_config = "[]"]
  by simp

text \<open>
  A call that takes the database-memory branch does not get past line 69: the branch
  leaves \<open>chat_prompt\<close> at \<open>None\<close>, which \<open>LLMChain\<close> refuses.
\<close>

lemma memory_branch_raises:
  assumes "\<not> history_truthy history" and "conversation_id \<noteq> []" and "history_len > 0"
    and "map_of models (S ''llm_model'') = Some llm"
  shows "snd (create_models_chains from_data name_of history history_len prompts models tools
                cbs conversation_id metadata) = Inl ValidationError"
  using assms
  by (simp add: create_models_chains_def prompt_and_memory_def LLMChain_def getitem_Some
        and_then_Inr and_then_Inl)

section \<open>Properties of chat\<close>

lemma agent_tools_of_chain:
  assumes "snd (create_models_chains from_data name_of history history_len prompts models tools
                  cbs conversation_id metadata) = Inr (input_to_agent a)"
  shows "agent_tools a = tools"
  using assms
  by (auto simp: create_models_chains_def select_chain_def LLMChain_def and_then_def
           getitem_def Let_def
           split: sum.splits option.splits if_splits)

lemma plain_chain_of_chain:
  assumes "snd (create_models_chains from_data name_of history history_len prompts models tools
                  cbs conversation_id metadata) = Inr (input_to_chain c)"
  shows "map_of models (S ''action_model'') = None \<or> tools = []"
  using assms
  by (auto simp: create_models_chains_def select_chain_def LLMChain_def and_then_def
           getitem_def Let_def
           split: sum.splits option.splits if_splits)

text \<open>
  C7. The tools of a request are the registered tools whose name is a key of
  \<open>tool_config\<close>: a tool is among them if and only if it is registered and its name is a
  key, they come in registry order, each as often as the registry lists it. The chain of
  the request is what \<open>create_models_chains\<close> returns when called with these tools, the
  models and prompts of the request and the one callback handler. So an agent built for
  the request has exactly these tools, and the plain chain is returned only when the
  request has no action model or none of these tools.
\<close>

theorem tools_from_registry:
  "(\<forall>t. t \<in> set (select_tools registry tool_config) \<longleftrightarrow>
         t \<in> set registry \<and> name t \<in> fst ` set tool_config) \<and>
   subseq (select_tools registry tool_config) registry \<and>
   (\<forall>t. count_list (select_tools registry tool_config) t =
         (if name t \<in> fst ` set tool_config then count_list registry t else 0)) \<and>
   chat_chain ext metadata conversation_id history_len history stream model_config tool_config =
     snd (create_models_chains (from_data_of ext) (model_name_of ext) history history_len
            (snd (chat_models ext stream model_config))
            (fst (chat_models ext stream model_config))
            (select_tools (all_tools ext) tool_config)
            (Some [AgentExecutorAsyncIteratorCallbackHandler]) conversation_id metadata) \<and>
   (\<forall>a. chat_chain ext metadata conversation_id history_len history stream model_config
           tool_config = Inr (input_to_agent a) \<longrightarrow>
        agent_tools a = select_tools (all_tools ext) tool_config) \<and>
   (\<forall>c. chat_chain ext metadata conversation_id history_len history stream model_config
           tool_config = Inr (input_to_chain c) \<longrightarrow>
        map_of (fst (chat_models ext stream model_config)) (S ''action_model'') = None \<or>
        select_tools (all_tools ext) tool_config = [])"
proof -
  have k: "\<And>t. (map_of tool_config (name t) \<noteq> None) = (name t \<in> fst ` set tool_config)"
    by (simp add: map_of_eq_None_iff)
  have c: "\<And>t P. count_list (filter P registry) t = (if P t then count_list registry t else 0)"
    by (induction registry) auto
  have s: "(\<forall>t. t \<in> set (select_tools registry tool_config) \<longleftrightarrow>
         t \<in> set registry \<and> name t \<in> fst ` set tool_config) \<and>
   subseq (select_tools registry tool_config) registry \<and>
   (\<forall>t. count_list (select_tools registry tool_config) t =
         (if name t \<in> fst ` set tool_config then count_list registry t else 0))"
    unfolding select_tools_def k by (simp add: c)
  have e: "chat_chain ext metadata conversation_id history_len history stream model_config
             tool_config =
     snd (create_models_chains (from_data_of ext) (model_name_of ext) history history_len
            (snd (chat_models ext stream model_config))
            (fst (chat_models ext stream model_config))
            (select_tools (all_tools ext) tool_config)
            (Some [AgentExecutorAsyncIteratorCallbackHandler]) conversation_id metadata)"
    by (simp add: chat_chain_def Let_def)
  have p: "\<forall>a. chat_chain ext metadata conversation_id history_len history stream model_config
           tool_config = Inr (input_to_agent a) \<longrightarrow>
        agent_tools a = select_tools (all_tools ext) tool_config"
    unfolding e by (auto dest: agent_tools_of_chain)
  have q: "\<forall>c. chat_chain ext metadata conversation_id history_len history stream model_config
           tool_config = Inr (input_to_chain c) \<longrightarrow>
        map_of (fst (chat_models ext stream model_config)) (S ''action_model'') = None \<or>
        select_tools (all_tools ext) tool_config = []"
    unfolding e by (auto dest: plain_chain_of_chain)
  from s e p q show ?thesis by blast
qed

lemma example_models_built:
  "chat_models example_ext True example_model_config =
     ([(S ''llm_model'', chat_model (S ''gpt-4'')),
       (S ''preprocess_model'', chat_model (S ''gpt-3.5'')),
       (S ''action_model'', chat_model (S ''Qwen-14B-Chat''))],
      [(S ''llm_model'', S ''llm_model''),
       (S ''preprocess_model'', S ''preprocess_model''),
       (S ''action_model'', S ''action_model'')])"
  by (simp add: chat_models_def create_models_from_config_def run_models_from_config_def
        example_model_config_def example_ext_def loop_body_def dict_get_def chat_model_def
        S_def Let_def)

lemma example_chain:
  "chat_chain example_ext JNull (S ''c1'') (- 1) (HistoryList []) True example_model_config
     [(S ''weather_check'', JObj [])] =
   Inr (input_to_agent
         (initialize_qwen_agent (chat_model (S ''Qwen-14B-Chat''))
            [weather_check] (S ''action_model'') None
            (Some [AgentExecutorAsyncIteratorCallbackHandler]) True))"
  by (simp add: chat_chain_def example_models_built)
     (simp add: example_ext_def create_models_chains_def prompt_and_memory_def
        select_chain_def select_tools_def LLMChain_def getitem_def and_then_def
        chat_model_def lower_def lower_cp_def calculate_def weather_check_def S_def)

lemma example_plain_chain:
  "chat_chain example_ext JNull (S ''c1'') (- 1) (HistoryList []) True example_model_config
     [(S ''unknown'', JNull)] =
   Inr (input_to_chain
         (llm_chain
            (from_messages
               [to_msg_template \<lparr>role = S ''user'', content = S ''llm_model''\<rparr> (Some False)])
            (chat_model (S ''gpt-4'')) None))"
  by (simp add: chat_chain_def example_models_built)
     (simp add: example_ext_def create_models_chains_def prompt_and_memory_def
        select_chain_def select_tools_def LLMChain_def getitem_def and_then_def
        chat_model_def calculate_def weather_check_def S_def)

text \<open>
  On the example registry of two tools, a \<open>tool_config\<close> with the key \<open>weather_check\<close>
  selects that tool alone and the agent of the request gets it; a \<open>tool_config\<close> with the
  key \<open>unknown\<close> selects nothing and the request gets the plain chain.
\<close>

theorem tools_from_registry_witness:
  "select_tools (all_tools example_ext) [(S ''weather_check'', JObj [])] = [weather_check] \<and>
   agent_tools (initialize_qwen_agent (chat_model (S ''Qwen-14B-Chat''))
            [weather_check] (S ''action_model'') None
            (Some [AgentExecutorAsyncIteratorCallbackHandler]) True) =
     select_tools (all_tools example_ext) [(S ''weather_check'', JObj [])] \<and>
   select_tools (all_tools example_ext) [(S ''unknown'', JNull)] = []"
proof -
  note t = tools_from_registry [where registry = "all_tools example_ext" and ext = example_ext
      and metadata = JNull and conversation_id = "S ''c1''" and history_len = "- 1"
      and history = "HistoryList []" and stream = True and model_config = example_model_config]
  have a: "agent_tools (initialize_qwen_agent (chat_model (S ''Qwen-14B-Chat''))
            [weather_check] (S ''action_model'') None
            (Some [AgentExecutorAsyncIteratorCallbackHandler]) True) =
     select_tools (all_tools example_ext) [(S ''weather_check'', JObj [])]"
    using t [where tool_config = "[(S ''weather_check'', JObj [])]",
        THEN conjunct2, THEN conjunct2, THEN conjunct2, THEN conjunct2, THEN conjunct1]
      example_chain
    by simp
  have m: "map_of (fst (chat_models example_ext True example_model_config))
             (S ''action_model'') \<noteq> None"
    by (simp add: example_models_built)
  have b: "select_tools (all_tools example_ext) [(S ''unknown'', JNull)] = []"
    using t [where tool_config = "[(S ''unknown'', JNull)]",
        THEN conjunct2, THEN conjunct2, THEN conjunct2, THEN conjunct2, THEN conjunct2]
      example_plain_chain m
    by simp
  from a b show ?thesis by simp
qed

lemma forward_objects:
  "map (json_loads ext) chunks = map (\<lambda>kvs. Inr (JObj kvs)) events \<Longrightarrow>
   forward ext mid chunks =
     (map (\<lambda>kvs. json_dumps (float_repr ext) (JObj (AList.update (S ''message_id'') mid kvs)))
        events, None)"
proof (induction chunks arbitrary: events)
  case Nil
  then show ?case by simp
next
  case (Cons chunk chunks)
  then obtain kvs rest where ev: "events = kvs # rest" by (cases events) auto
  with Cons.prems have l: "json_loads ext chunk = Inr (JObj kvs)"
    and r: "map (json_loads ext) chunks = map (\<lambda>kvs. Inr (JObj kvs)) rest"
    by simp_all
  from Cons.IH[OF r] l ev show ?case by simp
qed

text \<open>
  C3, as the code has it. Take a request whose chain is built, and let every chunk of the
  run be the JSON text of an object. Then the body yields, for each event in turn, the
  \<open>json.dumps\<close> text of an object that maps \<open>message_id\<close> to the id returned by
  \<open>add_message_to_db\<close> (or to null when \<open>conversation_id\<close> is empty) and every other key
  to what the event maps it to; the generator ends without an exception, and the media
  type is \<open>text/event-stream\<close>.
\<close>

theorem events_get_message_id:
  assumes "chat_chain ext metadata conversation_id history_len history stream model_config
             tool_config = Inr full_chain"
    and "map (json_loads ext) (aiter ext full_chain query) = map (\<lambda>kvs. Inr (JObj kvs)) events"
  shows "\<exists>outs.
           body (chat ext query metadata conversation_id history_len history stream model_config
                   tool_config) =
             (map (\<lambda>kvs. json_dumps (float_repr ext) (JObj kvs)) outs, None) \<and>
           length outs = length events \<and>
           (\<forall>i k. i < length events \<longrightarrow>
              map_of (outs ! i) k =
                (if k = S ''message_id''
                 then Some (if conversation_id \<noteq> []
                            then add_message_to_db ext (S ''llm_chat'') query conversation_id
                            else JNull)
                 else map_of (events ! i) k)) \<and>
           media_type (chat ext query metadata conversation_id history_len history stream
                         model_config tool_config) = S ''text/event-stream''"
proof -
  let ?mid = "if conversation_id \<noteq> []
              then add_message_to_db ext (S ''llm_chat'') query conversation_id else JNull"
  let ?outs = "map (AList.update (S ''message_id'') ?mid) events"
  have b: "body (chat ext query metadata conversation_id history_len history stream model_config
                   tool_config) =
             (map (\<lambda>kvs. json_dumps (float_repr ext) (JObj kvs)) ?outs, None)"
    using assms(1) forward_objects[OF assms(2), of ?mid]
    by (simp add: chat_def chat_iterator_def comp_def)
  have f: "\<forall>i k. i < length events \<longrightarrow>
              map_of (?outs ! i) k =
                (if k = S ''message_id'' then Some ?mid else map_of (events ! i) k)"
    by (simp add: update_conv')
  have m: "media_type (chat ext query metadata conversation_id history_len history stream
                         model_config tool_config) = S ''text/event-stream''"
    by (simp add: chat_def)
  from b f m show ?thesis
    by (intro exI[of _ ?outs]) simp
qed

lemma example_body:
  "body (chat example_ext (S ''hi'') JNull (S ''c1'') (- 1) (HistoryList []) True
           example_model_config [(S ''weather_check'', JObj [])]) =
     ([json_dumps (\<lambda>r. [])
         (JObj [(S ''status'', JInt 2), (S ''text'', JStr (S ''hi'')),
                (S ''message_id'', JStr (S ''m1''))]),
       json_dumps (\<lambda>r. [])
         (JObj [(S ''message_id'', JStr (S ''m1'')), (S ''status'', JInt 3)])], None)"
  by (simp add: chat_def chat_iterator_def example_chain)
     (simp add: example_ext_def S_def)

text \<open>
  A run on the example: the first event gains \<open>message_id\<close>, the second has its
  \<open>message_id\<close> overwritten.
\<close>

theorem events_get_message_id_witness:
  "body (chat example_ext (S ''hi'') JNull (S ''c1'') (- 1) (HistoryList []) True
           example_model_config [(S ''weather_check'', JObj [])]) =
     ([json_dumps (\<lambda>r. [])
         (JObj [(S ''status'', JInt 2), (S ''text'', JStr (S ''hi'')),
                (S ''message_id'', JStr (S ''m1''))]),
       json_dumps (\<lambda>r. [])
         (JObj [(S ''message_id'', JStr (S ''m1'')), (S ''status'', JInt 3)])], None) \<and>
   media_type (chat example_ext (S ''hi'') JNull (S ''c1'') (- 1) (HistoryList []) True
                 example_model_config [(S ''weather_check'', JObj [])]) = S ''text/event-stream''"
proof -
  let ?fc = "input_to_agent
         (initialize_qwen_agent (chat_model (S ''Qwen-14B-Chat''))
            [weather_check] (S ''action_model'') None
            (Some [AgentExecutorAsyncIteratorCallbackHandler]) True)"
  let ?events = "[[(S ''status'', JInt 2), (S ''text'', JStr (S ''hi''))],
                  [(S ''message_id'', JInt 0), (S ''status'', JInt 3)]]"
  have l: "map (json_loads example_ext) (aiter example_ext ?fc (S ''hi'')) =
           map (\<lambda>kvs. Inr (JObj kvs)) ?events"
    by (simp add: example_ext_def)
  from events_get_message_id [OF example_chain l]
  have m: "media_type (chat example_ext (S ''hi'') JNull (S ''c1'') (- 1) (HistoryList []) True
                 example_model_config [(S ''weather_check'', JObj [])]) = S ''text/event-stream''"
    by blast
  from m example_body show ?thesis by simp
qed

text \<open>
  C3 as the claim words it fails on the delimiter. The body of the example request carries
  two objects, \<open>{"status": 2, "text": "hi", "message_id": "m1"}\<close> and
  \<open>{"message_id": "m1", "status": 3}\<close>, one after the other, and there is no line feed
  (code point 10) anywhere in it: each item is the \<open>json.dumps\<close> text alone.
\<close>

theorem events_newline_counterexample:
  "length (fst (body (chat example_ext (S ''hi'') JNull (S ''c1'') (- 1) (HistoryList []) True
                        example_model_config [(S ''weather_check'', JObj [])]))) = 2 \<and>
   concat (fst (body (chat example_ext (S ''hi'') JNull (S ''c1'') (- 1) (HistoryList []) True
                        example_model_config [(S ''weather_check'', JObj [])]))) =
     [123, 34, 115, 116, 97, 116, 117, 115, 34, 58, 32, 50, 44, 32,
      34, 116, 101, 120, 116, 34, 58, 32, 34, 104, 105, 34, 44, 32,
      34, 109, 101, 115, 115, 97, 103, 101, 95, 105, 100, 34, 58, 32, 34, 109, 49, 34, 125,
      123, 34, 109, 101, 115, 115, 97, 103, 101, 95, 105, 100, 34, 58, 32, 34, 109, 49, 34,
      44, 32, 34, 115, 116, 97, 116, 117, 115, 34, 58, 32, 51, 125] \<and>
   10 \<notin> set (concat (fst (body (chat example_ext (S ''hi'') JNull (S ''c1'') (- 1)
                                   (HistoryList []) True example_model_config
                                   [(S ''weather_check'', JObj [])]))))"
  by (simp add: example_body)
     (simp add: quote_def escape_def int_repr_def decimal.simps S_def)

section \<open>Properties of parse_command\<close>

text \<open>
  C5. A text that the pattern reads as the command \<open>stop\<close>, with or without a name, is
  accepted as a command and changes nothing: no chat, no conversation id, no message and
  no flag of the state is touched. The function has branches for \<open>help\<close>, \<open>new\<close>, \<open>del\<close>
  and \<open>clear\<close> only.
\<close>

theorem stop_is_ignored:
  assumes "re_match txt = Some (S ''stop'', raw)"
  shows "parse_command fresh txt st = (Inr True, st)"
  using assms by (simp add: parse_command_def S_def)

lemma re_match_stop:
  "re_match (S ''/stop'') = Some (S ''stop'', [])"
  "re_match (S ''/stop work'') = Some (S ''stop'', S ''work'')"
  by (simp_all add: re_match_def S_def is_space_def)

text \<open>The two forms of the command, on the state with two chats.\<close>

theorem stop_is_ignored_witness:
  "parse_command (S ''u'') (S ''/stop'') two_chats = (Inr True, two_chats) \<and>
   parse_command (S ''u'') (S ''/stop work'') two_chats = (Inr True, two_chats)"
  using stop_is_ignored [OF re_match_stop(1), of "S ''u''" two_chats]
    stop_is_ignored [OF re_match_stop(2), of "S ''u''" two_chats]
  by simp

lemma delete_distinct_length:
  "distinct (map fst al) \<Longrightarrow> length al \<le> Suc (length (AList.delete k al))"
proof (induction al)
  case Nil
  show ?case by simp
next
  case (Cons x al)
  show ?case
  proof (cases "fst x = k")
    case True
    with Cons.prems have "k \<notin> fst ` set al" by auto
    then have "AList.delete k al = al" by simp
    with True show ?thesis by simp
  next
    case False
    with Cons show ?thesis by simp
  qed
qed

lemma del_chat_name_cases:
  assumes "distinct (get_chat_names st)" and "2 \<le> length (get_chat_names st)"
  shows "(map_of (histories st) n = None \<and> del_chat_name n st = (Some UnboundLocalError, st)) \<or>
         (map_of (histories st) n \<noteq> None \<and>
          (\<exists>h hs. AList.delete n (histories st) = h # hs \<and>
             del_chat_name n st =
               (None, st\<lparr>histories := AList.delete n (histories st), cur_chat_name := fst h\<rparr>)))"
proof (cases "map_of (histories st) n = None")
  case True
  then show ?thesis by (simp add: del_chat_name_def)
next
  case False
  from assms(1) have "length (histories st) \<le> Suc (length (AList.delete n (histories st)))"
    unfolding get_chat_names_def by (rule delete_distinct_length)
  with assms(2) have "AList.delete n (histories st) \<noteq> []"
    by (auto simp: get_chat_names_def)
  then obtain h hs where "AList.delete n (histories st) = h # hs"
    by (cases "AList.delete n (histories st)") auto
  with False show ?thesis by (simp add: del_chat_name_def)
qed

text \<open>
  C10, as the code has it. Take a state with at least one chat name (the names being the
  keys of a dict, they are pairwise different) and a text that the pattern reads as the
  command \<open>del\<close>. Whatever the call does, at least one chat name is left. With exactly one
  chat name it returns \<open>True\<close> and only reports that the last conversation cannot be
  deleted. Otherwise, when the session name in effect (the name typed, or \<open>cur_conv_name\<close>
  when none is typed) is missing, empty or not a key of \<open>conversation_ids\<close>, it returns
  \<open>True\<close> and only reports an invalid name. In both cases \<open>conversation_ids\<close> and the chats
  are as before. Otherwise, when the name is also a chat name, it returns \<open>True\<close> and has
  removed the name from \<open>conversation_ids\<close> and from the chats.
\<close>

theorem del_keeps_a_chat:
  assumes "re_match txt = Some (S ''del'', raw)"
    and "get_chat_names st \<noteq> []"
    and "distinct (get_chat_names st)"
  shows "get_chat_names (snd (parse_command fresh txt st)) \<noteq> [] \<and>
         (length (get_chat_names st) = 1 \<longrightarrow>
            parse_command fresh txt st =
              (Inr True, st\<lparr>shown_errors := shown_errors st @ [last_conversation]\<rparr>)) \<and>
         (let target = (if strip raw \<noteq> [] then Some (strip raw) else cur_conv_name st) in
            (length (get_chat_names st) \<noteq> 1 \<and>
             (target = None \<or> target = Some [] \<or>
              (\<exists>n. target = Some n \<and> map_of (conversation_ids st) n = None)) \<longrightarrow>
             parse_command fresh txt st =
               (Inr True, st\<lparr>shown_errors := shown_errors st @ [invalid_name target]\<rparr>)) \<and>
            (\<forall>n. length (get_chat_names st) \<noteq> 1 \<and> target = Some n \<and> n \<noteq> [] \<and>
                 map_of (conversation_ids st) n \<noteq> None \<and> n \<in> set (get_chat_names st) \<longrightarrow>
                 fst (parse_command fresh txt st) = Inr True \<and>
                 conversation_ids (snd (parse_command fresh txt st)) =
                   AList.delete n (conversation_ids st) \<and>
                 histories (snd (parse_command fresh txt st)) =
                   AList.delete n (histories st)))"
proof -
  let ?target = "if strip raw \<noteq> [] then Some (strip raw) else cur_conv_name st"
  let ?r = "parse_command fresh txt st"
  have cmd: "S ''del'' \<noteq> S ''help''" "S ''del'' \<noteq> S ''new''"
    by (simp_all add: S_def)
  have one: "length (get_chat_names st) = 1 \<longrightarrow>
            ?r = (Inr True, st\<lparr>shown_errors := shown_errors st @ [last_conversation]\<rparr>)"
    using assms(1) cmd by (simp add: parse_command_def Let_def)
  have invalid: "length (get_chat_names st) \<noteq> 1 \<and>
            (?target = None \<or> ?target = Some [] \<or>
             (\<exists>n. ?target = Some n \<and> map_of (conversation_ids st) n = None)) \<longrightarrow>
            ?r = (Inr True, st\<lparr>shown_errors := shown_errors st @ [invalid_name ?target]\<rparr>)"
    using assms(1) cmd by (auto simp: parse_command_def Let_def split: option.splits)
  have two: "length (get_chat_names st) \<noteq> 1 \<Longrightarrow> 2 \<le> length (get_chat_names st)"
    using assms(2) by (cases "get_chat_names st"; cases "tl (get_chat_names st)") auto
  have branch: "?r = (case del_chat_name n
                          (st\<lparr>conversation_ids := AList.delete n (conversation_ids st)\<rparr>) of
                     (Some e, st') \<Rightarrow> (Inl e, st')
                   | (None, st') \<Rightarrow> (Inr True, st'\<lparr>cur_conv_name := Some []\<rparr>))"
    if "length (get_chat_names st) \<noteq> 1" "?target = Some n" "n \<noteq> []"
       "map_of (conversation_ids st) n \<noteq> None" for n
    using assms(1) cmd that by (auto simp: parse_command_def Let_def split: option.splits)
  have cases:
    "(\<exists>e. ?r = (Inr True, st\<lparr>shown_errors := shown_errors st @ [e]\<rparr>)) \<or>
     (\<exists>n. length (get_chat_names st) \<noteq> 1 \<and> ?target = Some n \<and> n \<noteq> [] \<and>
          map_of (conversation_ids st) n \<noteq> None)"
    using one invalid by (cases ?target) auto
  have names: "get_chat_names (snd ?r) \<noteq> []"
  proof -
    from cases consider
      (err) e where "?r = (Inr True, st\<lparr>shown_errors := shown_errors st @ [e]\<rparr>)"
      | (deletion) n where "length (get_chat_names st) \<noteq> 1" "?target = Some n" "n \<noteq> []"
          "map_of (conversation_ids st) n \<noteq> None"
      by blast
    then show ?thesis
    proof cases
      case err
      with assms(2) show ?thesis by (simp add: get_chat_names_def)
    next
      case deletion
      let ?st = "st\<lparr>conversation_ids := AList.delete n (conversation_ids st)\<rparr>"
      have g: "get_chat_names ?st = get_chat_names st" by (simp add: get_chat_names_def)
      from deletion(1) have l: "2 \<le> length (get_chat_names ?st)" using two g by simp
      from assms(3) have d: "distinct (get_chat_names ?st)" using g by simp
      from del_chat_name_cases [OF d l, of n] assms(2)
      show ?thesis
        unfolding branch [OF deletion]
        by (auto simp: get_chat_names_def)
    qed
  qed
  have removal: "fst ?r = Inr True \<and>
                 conversation_ids (snd ?r) = AList.delete n (conversation_ids st) \<and>
                 histories (snd ?r) = AList.delete n (histories st)"
    if "length (get_chat_names st) \<noteq> 1" "?target = Some n" "n \<noteq> []"
       "map_of (conversation_ids st) n \<noteq> None" "n \<in> set (get_chat_names st)" for n
  proof -
    let ?st = "st\<lparr>conversation_ids := AList.delete n (conversation_ids st)\<rparr>"
    have g: "get_chat_names ?st = get_chat_names st" by (simp add: get_chat_names_def)
    from that(1) have l: "2 \<le> length (get_chat_names ?st)" using two g by simp
    from assms(3) have d: "distinct (get_chat_names ?st)" using g by simp
    from that(5) have "map_of (histories ?st) n \<noteq> None"
      by (simp add: get_chat_names_def map_of_eq_None_iff)
    with del_chat_name_cases [OF d l, of n]
    obtain h hs where "del_chat_name n ?st =
        (None, ?st\<lparr>histories := AList.delete n (histories ?st), cur_chat_name := fst h\<rparr>)"
      by auto
    with branch [OF that(1-4)] show ?thesis by simp
  qed
  from names one invalid removal show ?thesis
    by (simp add: Let_def)
qed

lemma re_match_del:
  "re_match (S ''/del'') = Some (S ''del'', [])"
  "re_match (S ''/del nope'') = Some (S ''del'', S ''nope'')"
  "re_match (S ''/del default'') = Some (S ''del'', S ''default'')"
  "re_match (S ''/clear nope'') = Some (S ''clear'', S ''nope'')"
  by (simp_all add: re_match_def S_def is_space_def)

lemma example_names_distinct:
  "get_chat_names two_chats = [S ''default'', S ''work'']"
  "get_chat_names one_chat = [S ''default'']"
  "S ''default'' \<noteq> S ''work''"
  by (simp_all add: get_chat_names_def two_chats_def one_chat_def S_def)

text \<open>
  With two chats \<open>/del\<close> deletes the current one and \<open>default\<close> remains; with one chat
  it reports the last conversation; an unknown name is reported as invalid.
\<close>

theorem del_keeps_a_chat_witness:
  "get_chat_names (snd (parse_command (S ''u'') (S ''/del'') two_chats)) = [S ''default''] \<and>
   conversation_ids (snd (parse_command (S ''u'') (S ''/del'') two_chats)) =
     [(S ''default'', S ''id0'')] \<and>
   parse_command (S ''u'') (S ''/del'') one_chat =
     (Inr True, one_chat\<lparr>shown_errors := [last_conversation]\<rparr>) \<and>
   parse_command (S ''u'') (S ''/del nope'') two_chats =
     (Inr True, two_chats\<lparr>shown_errors := [invalid_name (Some (S ''nope''))]\<rparr>)"
proof -
  have d2: "distinct (get_chat_names two_chats)" "get_chat_names two_chats \<noteq> []"
    and d1: "distinct (get_chat_names one_chat)" "get_chat_names one_chat \<noteq> []"
    by (simp_all add: example_names_distinct)
  note a = del_keeps_a_chat [OF re_match_del(1) d2(2) d2(1), of "S ''u''"]
  note b = del_keeps_a_chat [OF re_match_del(1) d1(2) d1(1), of "S ''u''"]
  note c = del_keeps_a_chat [OF re_match_del(2) d2(2) d2(1), of "S ''u''"]
  have nope: "strip (S ''nope'') = S ''nope''" "S ''nope'' \<noteq> []"
    "map_of (conversation_ids two_chats) (S ''nope'') = None"
    by (simp_all add: strip_def is_space_def two_chats_def S_def)
  have work: "strip [] = []" "cur_conv_name two_chats = Some (S ''work'')" "S ''work'' \<noteq> []"
    "map_of (conversation_ids two_chats) (S ''work'') \<noteq> None"
    "S ''work'' \<in> set (get_chat_names two_chats)"
    "AList.delete (S ''work'') (conversation_ids two_chats) = [(S ''default'', S ''id0'')]"
    "AList.delete (S ''work'') (histories two_chats) = [(S ''default'', [1, 2])]"
    by (simp_all add: strip_def two_chats_def get_chat_names_def S_def)
  have l1: "length (get_chat_names one_chat) = 1"
    and l2: "length (get_chat_names two_chats) \<noteq> 1"
    by (simp_all add: example_names_distinct)
  have e1: "shown_errors one_chat = []" and e2: "shown_errors two_chats = []"
    by (simp_all add: one_chat_def two_chats_def)
  from b l1 have one: "parse_command (S ''u'') (S ''/del'') one_chat =
     (Inr True, one_chat\<lparr>shown_errors := shown_errors one_chat @ [last_conversation]\<rparr>)"
    by blast
  from c l2 nope have inv: "parse_command (S ''u'') (S ''/del nope'') two_chats =
     (Inr True,
      two_chats\<lparr>shown_errors := shown_errors two_chats @ [invalid_name (Some (S ''nope''))]\<rparr>)"
    by (simp add: Let_def)
  from a l2 work
  have del: "conversation_ids (snd (parse_command (S ''u'') (S ''/del'') two_chats)) =
               [(S ''default'', S ''id0'')] \<and>
             histories (snd (parse_command (S ''u'') (S ''/del'') two_chats)) =
               [(S ''default'', [1, 2])]"
    by (simp add: Let_def)
  from one inv del show ?thesis
    by (simp add: get_chat_names_def e1 e2)
qed

text \<open>
  C10 as the claim words it fails for \<open>conversation_ids\<close>: the guard counts the chat names.
  From the state with the one chat \<open>default\<close>, \<open>/clear nope\<close> makes \<open>nope\<close> a chat without
  a conversation id; \<open>/del default\<close> then finds two chat names, deletes \<open>default\<close> and
  leaves \<open>conversation_ids\<close> empty.
\<close>

theorem del_conversation_ids_counterexample:
  "parse_command (S ''u'') (S ''/clear nope'') one_chat =
     (Inr True, one_chat\<lparr>histories := [(S ''default'', [1, 2]), (S ''nope'', [])]\<rparr>) \<and>
   get_chat_names (one_chat\<lparr>histories := [(S ''default'', [1, 2]), (S ''nope'', [])]\<rparr>) \<noteq> [] \<and>
   parse_command (S ''u'') (S ''/del default'')
     (one_chat\<lparr>histories := [(S ''default'', [1, 2]), (S ''nope'', [])]\<rparr>) =
     (Inr True,
      \<lparr>histories = [(S ''nope'', [])], cur_chat_name = S ''nope'', conversation_ids = [],
       cur_conv_name = Some [], shown_errors = [], modal_opened = False\<rparr>)"
proof -
  have c: "parse_command (S ''u'') (S ''/clear nope'') one_chat =
     (Inr True, one_chat\<lparr>histories := [(S ''default'', [1, 2]), (S ''nope'', [])]\<rparr>)"
    apply (simp only: parse_command_def re_match_del option.case fst_conv snd_conv Let_def)
    apply (simp add: reset_history_def one_chat_def strip_def is_space_def S_def)
    done
  have d: "parse_command (S ''u'') (S ''/del default'')
     (one_chat\<lparr>histories := [(S ''default'', [1, 2]), (S ''nope'', [])]\<rparr>) =
     (Inr True,
      \<lparr>histories = [(S ''nope'', [])], cur_chat_name = S ''nope'', conversation_ids = [],
       cur_conv_name = Some [], shown_errors = [], modal_opened = False\<rparr>)"
    apply (simp only: parse_command_def re_match_del option.case fst_conv snd_conv Let_def)
    apply (simp add: get_chat_names_def del_chat_name_def one_chat_def strip_def is_space_def
             S_def)
    done
  from c d show ?thesis by (simp add: get_chat_names_def)
qed

section \<open>Properties of the event loop\<close>

lemma on_event_no_request: "\<not> is_request c" if "c \<in> set (fst (snd (on_event status d v)))"
  using that
  by (auto simp: on_event_def is_request_def Let_def getitem_def
           split: option.splits if_splits json.splits)

lemma event_loop_no_request: "filter is_request (fst (event_loop status ds v)) = []"
proof (induction ds arbitrary: v)
  case Nil
  show ?case by simp
next
  case (Cons d ds)
  obtain v' calls e where o: "on_event status d v = (v', calls, e)"
    by (cases "on_event status d v") auto
  have c: "filter is_request calls = []"
    using on_event_no_request[of _ status d v] o by (auto simp: filter_empty_conv)
  show ?case
    using o c Cons.IH[of v'] by (cases e) (simp_all add: Let_def)
qed

text \<open>
  C6. For an event whose \<open>status\<close> equals \<open>AgentStatus.error\<close> and that has a \<open>text\<close>
  field, the round makes one call, \<open>st.error\<close> with that text, raises nothing and changes
  no variable but \<open>message_id\<close>; the loop then goes on with the remaining events of the
  same response. Whatever the events are, the only request among the calls of the whole
  exchange is the one made before the loop.
\<close>

theorem error_event_shown:
  assumes "map_of d (S ''status'') = Some s"
    and "status_eq s (error status)"
    and "map_of d (S ''text'') = Some t"
  shows "on_event status d v =
           (v\<lparr>message_id_var := dict_get d (S ''message_id'') (JStr [])\<rparr>, [st_error t], None) \<and>
         event_loop status (d # ds) v =
           (st_error t #
              fst (event_loop status ds
                     (v\<lparr>message_id_var := dict_get d (S ''message_id'') (JStr [])\<rparr>)),
            snd (event_loop status ds
                   (v\<lparr>message_id_var := dict_get d (S ''message_id'') (JStr [])\<rparr>))) \<and>
         filter is_request (fst (stream_chat status api req)) = [api_chat_chat req]"
proof -
  have o: "on_event status d v =
           (v\<lparr>message_id_var := dict_get d (S ''message_id'') (JStr [])\<rparr>, [st_error t], None)"
    using assms by (simp add: on_event_def getitem_def Let_def)
  have l: "event_loop status (d # ds) v =
           (st_error t #
              fst (event_loop status ds
                     (v\<lparr>message_id_var := dict_get d (S ''message_id'') (JStr [])\<rparr>)),
            snd (event_loop status ds
                   (v\<lparr>message_id_var := dict_get d (S ''message_id'') (JStr [])\<rparr>)))"
    by (simp add: o Let_def)
  have r: "filter is_request (fst (stream_chat status api req)) = [api_chat_chat req]"
    by (simp add: stream_chat_def Let_def event_loop_no_request is_request_def)
  from o l r show ?thesis by simp
qed

text \<open>
  On the example events the error is shown between the two tokens, and the text goes on
  growing after it.
\<close>

theorem error_event_shown_witness:
  "fst (stream_chat example_status (\<lambda>r. example_events) example_request) =
     [api_chat_chat example_request,
      update_msg_text (S ''he'') True 0 (JStr (S ''m1'')),
      st_error (JStr (S ''boom'')),
      update_msg_text (S ''hey'') True 0 (JStr (S ''m1'')),
      update_msg_text (S ''hey'') False 0 (JStr (S ''m1''))] \<and>
   snd (snd (stream_chat example_status (\<lambda>r. example_events) example_request)) = None"
proof -
  let ?e = "[(S ''status'', JInt 8), (S ''text'', JStr (S ''boom'')),
             (S ''message_id'', JStr (S ''m1''))]"
  let ?v = "\<lparr>text_var = S ''he'', message_id_var = JStr (S ''m1''), tool_called_var = False\<rparr>"
  have s: "map_of ?e (S ''status'') = Some (JInt 8)" by (simp add: S_def)
  have q: "status_eq (JInt 8) (error example_status)" by (simp add: example_status_def)
  have t: "map_of ?e (S ''text'') = Some (JStr (S ''boom''))" by (simp add: S_def)
  note e = error_event_shown [OF s q t, of ?v
      "[[(S ''status'', JInt 2), (S ''text'', JStr (S ''y'')), (S ''message_id'', JStr (S ''m1''))],
        [(S ''status'', JInt 3), (S ''message_id'', JStr (S ''m1''))]]"
      "\<lambda>r. example_events" example_request]
  have first: "on_event example_status
                 [(S ''status'', JInt 2), (S ''text'', JStr (S ''he'')),
                  (S ''message_id'', JStr (S ''m1''))]
                 \<lparr>text_var = [], message_id_var = JStr [], tool_called_var = False\<rparr> =
               (?v, [update_msg_text (S ''he'') True 0 (JStr (S ''m1''))], None)"
    by (simp add: on_event_def getitem_def dict_get_def example_status_def S_def Let_def)
  have rest: "event_loop example_status
      [[(S ''status'', JInt 2), (S ''text'', JStr (S ''y'')), (S ''message_id'', JStr (S ''m1''))],
       [(S ''status'', JInt 3), (S ''message_id'', JStr (S ''m1''))]]
      (?v\<lparr>message_id_var := dict_get ?e (S ''message_id'') (JStr [])\<rparr>) =
      ([update_msg_text (S ''hey'') True 0 (JStr (S ''m1'')),
        update_msg_text (S ''hey'') False 0 (JStr (S ''m1''))],
       \<lparr>text_var = S ''hey'', message_id_var = JStr (S ''m1''), tool_called_var = False\<rparr>, None)"
    by (simp add: on_event_def getitem_def dict_get_def example_status_def S_def Let_def)
  from e first rest show ?thesis
    by (simp add: stream_chat_def example_events_def Let_def)
qed

end
